theory Spec2Isabelle
  imports Complex_Main
begin

section \<open>JavaScript values\<close>

text \<open>
  The strategy, the profile normalizer and the error type work on untyped JavaScript
  values: decoded JSON, query parameters, property reads that may give \<open>undefined\<close>.
  A number is an IEEE double: \<open>NaN\<close>, an infinity, or a finite value (always a rational;
  \<open>-0\<close> and \<open>+0\<close> are both \<open>Finite 0\<close>, which no code below tells apart).
  An object is its list of own properties in insertion order.
\<close>

datatype jsnumber = NaN | PosInfinity | NegInfinity | Finite rat

datatype jsval =
    JUndefined
  | JNull
  | JBool bool
  | JNum jsnumber
  | JStr string
  | JArr "jsval list"
  | JObj "(string \<times> jsval) list"

datatype js_exception = TypeError | SyntaxError

text \<open>ToBoolean: what \<open>if (v)\<close>, \<open>v && ...\<close>, \<open>v || ...\<close> and \<open>!v\<close> test.\<close>

fun truthy :: "jsval \<Rightarrow> bool" where
  "truthy JUndefined = False"
| "truthy JNull = False"
| "truthy (JBool b) = b"
| "truthy (JNum NaN) = False"
| "truthy (JNum PosInfinity) = True"
| "truthy (JNum NegInfinity) = True"
| "truthy (JNum (Finite r)) = (r \<noteq> 0)"
| "truthy (JStr s) = (s \<noteq> [])"
| "truthy (JArr xs) = True"
| "truthy (JObj fs) = True"

fun typeof :: "jsval \<Rightarrow> string" where
  "typeof JUndefined = ''undefined''"
| "typeof JNull = ''object''"
| "typeof (JBool b) = ''boolean''"
| "typeof (JNum n) = ''number''"
| "typeof (JStr s) = ''string''"
| "typeof (JArr xs) = ''object''"
| "typeof (JObj fs) = ''object''"

text \<open>
  Reading a property \<open>v.k\<close>. On \<open>null\<close> and \<open>undefined\<close> the read throws a TypeError.
  On an object it gives the own property, and \<open>undefined\<close> when there is none. The names
  read by the code below (\<open>id\<close>, \<open>name\<close>, \<open>birthday\<close>, \<open>gender\<close>, \<open>picture\<close>, \<open>data\<close>,
  \<open>url\<close>, \<open>error\<close>, \<open>message\<close>, \<open>code\<close>, \<open>error_code\<close>, \<open>error_message\<close>) are not
  properties of \<open>Object.prototype\<close>, \<open>Array.prototype\<close>, \<open>String.prototype\<close>,
  \<open>Number.prototype\<close> or \<open>Boolean.prototype\<close>, so on arrays and primitives the read
  gives \<open>undefined\<close>; \<open>own_prop\<close> is meant for such names only.
\<close>

fun own_prop :: "jsval \<Rightarrow> string \<Rightarrow> jsval" where
  "own_prop (JObj fs) k = (case map_of fs k of Some v \<Rightarrow> v | None \<Rightarrow> JUndefined)"
| "own_prop v k = JUndefined"

definition get_prop :: "jsval \<Rightarrow> string \<Rightarrow> js_exception + jsval" where
  "get_prop v k =
     (if v = JNull \<or> v = JUndefined then Inl TypeError else Inr (own_prop v k))"

text \<open>
  The assignment \<open>obj.k = v\<close> on an ordinary object: an existing property keeps its
  place, a new one goes last.
\<close>

fun put_field :: "(string \<times> jsval) list \<Rightarrow> string \<Rightarrow> jsval \<Rightarrow> (string \<times> jsval) list" where
  "put_field [] k v = [(k, v)]"
| "put_field ((k', v') # fs) k v =
     (if k' = k then (k, v) # fs else (k', v') # put_field fs k v)"

fun set_prop :: "jsval \<Rightarrow> string \<Rightarrow> jsval \<Rightarrow> jsval" where
  "set_prop (JObj fs) k v = JObj (put_field fs k v)"
| "set_prop x k v = x"

text \<open>Sequencing of statements that may throw: the first exception ends the function.\<close>

fun bindE :: "'e + 'a \<Rightarrow> ('a \<Rightarrow> 'e + 'b) \<Rightarrow> 'e + 'b" where
  "bindE (Inl e) f = Inl e"
| "bindE (Inr x) f = f x"

section \<open>The error type (\<open>errors/apierror.js\<close>)\<close>

record zalo_api_error =
  name :: string
  message :: jsval
  code :: jsval
  status :: int

definition ZaloAPIError :: "jsval \<Rightarrow> jsval \<Rightarrow> zalo_api_error" where
  "ZaloAPIError msg c =
     \<lparr>name = ''ZaloAPIError'', message = msg, code = c, status = 500\<rparr>"

section \<open>The profile normalizer (\<open>profile.js\<close>)\<close>

text \<open>
  \<open>JSON.parse\<close> belongs to the JavaScript runtime, not to this repository: it is a
  parameter, a function from the text to the decoded value, \<open>None\<close> where \<open>JSON.parse\<close>
  throws its SyntaxError.
\<close>

definition Profile_parse :: "(string \<Rightarrow> jsval option) \<Rightarrow> jsval \<Rightarrow> js_exception + jsval" where
  "Profile_parse JSON_parse json0 =
     bindE (case json0 of
              JStr s \<Rightarrow> (case JSON_parse s of None \<Rightarrow> Inl SyntaxError | Some j \<Rightarrow> Inr j)
            | _ \<Rightarrow> Inr json0) (\<lambda>json.
     bindE (get_prop json ''id'') (\<lambda>v_id.
     bindE (get_prop json ''name'') (\<lambda>v_name.
     bindE (get_prop json ''birthday'') (\<lambda>v_birthday.
     bindE (get_prop json ''gender'') (\<lambda>v_gender.
     bindE (get_prop json ''picture'') (\<lambda>picture.
       let profile = JObj [];
           profile = set_prop profile ''id'' v_id;
           profile = set_prop profile ''displayName'' v_name;
           profile = set_prop profile ''birthday'' v_birthday;
           profile = set_prop profile ''gender'' v_gender
       in if truthy picture then
            (if typeof picture = ''object'' \<and> truthy (own_prop picture ''data'') then
               Inr (set_prop profile ''photos''
                      (JArr [JObj [(''value'', own_prop (own_prop picture ''data'') ''url'')]]))
             else
               Inr (set_prop profile ''photos'' (JArr [JObj [(''value'', picture)]])))
          else Inr profile))))))"

section \<open>The strategy (\<open>strategy.js\<close>)\<close>

subsection \<open>What the strategy takes from the runtime and from the OAuth2 engine\<close>

text \<open>
  \<open>uri.parse\<close> gives a URL object. The strategy reads and writes its \<open>search\<close> property
  only (a string, or \<open>null\<close> = \<open>None\<close>); the other properties are carried along untouched.
\<close>

record 'u url =
  search :: "string option"
  other :: 'u

text \<open>
  The error a failed HTTP GET hands to the callback: the engine gives
  \<open>{statusCode, data}\<close> for an HTTP error status, a plain error without \<open>data\<close> otherwise.
\<close>

record transport_error =
  statusCode :: "int option"
  data :: "string option"

text \<open>
  Library functions the strategy calls: \<open>JSON.parse\<close>, \<open>parseInt\<close> (value and radix),
  \<open>uri.parse\<close>, \<open>uri.format\<close>, the hex digest of \<open>crypto.createHmac('sha256', key)\<close>
  on a message, and the engine's \<open>_oauth2.get(url, accessToken, callback)\<close>, given by
  the \<open>(err, body)\<close> it calls the callback with (\<open>None\<close> for a \<open>null\<close> error).
\<close>

record 'u runtime =
  JSON_parse :: "string \<Rightarrow> jsval option"
  parseInt :: "jsval \<Rightarrow> nat \<Rightarrow> jsnumber"
  uri_parse :: "string \<Rightarrow> 'u url"
  uri_format :: "'u url \<Rightarrow> string"
  createHmac_sha256_hex :: "string \<Rightarrow> string \<Rightarrow> string"
  oauth2_get :: "string \<Rightarrow> string \<Rightarrow> transport_error option \<times> string"

subsection \<open>Constructor\<close>

record options =
  graphAPIVersion :: "string option"
  authorizationURL :: "string option"
  tokenURL :: "string option"
  scopeSeparator :: "string option"
  profileURL :: "string option"
  profileFields :: "string list option"
  enableProof :: bool
  clientSecret :: string

record strategy =
  self_options :: options
  self_name :: string
  self_profileURL :: string
  self_profileFields :: "string list option"
  self_enableProof :: bool
  self_clientSecret :: string

text \<open>\<open>x || d\<close> on an optional string: the empty string is falsy too.\<close>

definition or_default :: "string option \<Rightarrow> string \<Rightarrow> string" where
  "or_default x d = (case x of None \<Rightarrow> d | Some s \<Rightarrow> if s = [] then d else s)"

text \<open>
  \<open>self_options\<close> is the options object as handed to the engine's constructor, with
  the defaults filled in. An array is truthy even when empty, so
  \<open>options.profileFields || null\<close> keeps every list.
\<close>

definition Strategy :: "options \<Rightarrow> strategy" where
  "Strategy opts =
     (let version = or_default (graphAPIVersion opts) ''v3'';
          opts = opts\<lparr>authorizationURL :=
                   Some (or_default (authorizationURL opts)
                           (''https://oauth.zaloapp.com/'' @ version @ ''/auth''))\<rparr>;
          opts = opts\<lparr>tokenURL :=
                   Some (or_default (tokenURL opts)
                           (''https://oauth.zaloapp.com/'' @ version @ ''/access_token''))\<rparr>;
          opts = opts\<lparr>scopeSeparator := Some (or_default (scopeSeparator opts) '','')\<rparr>
      in \<lparr>self_options = opts,
          self_name = ''zalo'',
          self_profileURL = or_default (profileURL opts) ''https://graph.zalo.me/v2.0/me'',
          self_profileFields = profileFields opts,
          self_enableProof = enableProof opts,
          self_clientSecret = clientSecret opts\<rparr>)"

subsection \<open>authenticate\<close>

record request =
  query :: jsval

text \<open>
  The two ways \<open>authenticate\<close> ends: \<open>this.error(err)\<close>, or the call of the engine's own
  \<open>authenticate\<close> with the same request and options.
\<close>

datatype 'o auth_action =
    Strategy_error zalo_api_error
  | Engine_authenticate request 'o

definition authenticate :: "'u runtime \<Rightarrow> request \<Rightarrow> 'o \<Rightarrow> 'o auth_action" where
  "authenticate rt req opts =
     (if truthy (query req) then
        (if truthy (own_prop (query req) ''error_code'') then
           (if \<not> truthy (own_prop (query req) ''error'') then
              Strategy_error
                (ZaloAPIError (own_prop (query req) ''error_message'')
                   (JNum (parseInt rt (own_prop (query req) ''error_code'') 10)))
            else Engine_authenticate req opts)
         else Engine_authenticate req opts)
      else Engine_authenticate req opts)"

subsection \<open>\<open>_convertProfileFields\<close>\<close>

text \<open>
  \<open>map[f]\<close> on the object literal \<open>map\<close> finds the five own properties and, for any
  other name, what \<open>map\<close> inherits from \<open>Object.prototype\<close>: a built-in function, or
  \<open>Object.prototype\<close> itself for \<open>__proto__\<close>. Only for the remaining names is it
  \<open>undefined\<close> (\<open>None\<close>).
\<close>

datatype field_value = FString string | FArray "string list" | FBuiltin string

definition field_map :: "(string \<times> field_value) list" where
  "field_map =
     [(''id'', FString ''id''),
      (''displayName'', FString ''name''),
      (''gender'', FString ''gender''),
      (''birthday'', FString ''birthday''),
      (''photos'', FString ''picture'')]"

definition Object_prototype_names :: "string list" where
  "Object_prototype_names =
     [''constructor'', ''__defineGetter__'', ''__defineSetter__'', ''hasOwnProperty'',
      ''__lookupGetter__'', ''__lookupSetter__'', ''isPrototypeOf'',
      ''propertyIsEnumerable'', ''toString'', ''valueOf'', ''__proto__'',
      ''toLocaleString'']"

definition map_lookup :: "string \<Rightarrow> field_value option" where
  "map_lookup f =
     (case map_of field_map f of
        Some v \<Rightarrow> Some v
      | None \<Rightarrow> if f \<in> set Object_prototype_names then Some (FBuiltin f) else None)"

text \<open>One round of the \<open>forEach\<close> callback: \<open>fields\<close> before, \<open>fields\<close> after.\<close>

definition convert_field :: "field_value list \<Rightarrow> string \<Rightarrow> field_value list" where
  "convert_field fields' f =
     (case map_lookup f of
        None \<Rightarrow> fields' @ [FString f]
      | Some (FArray xs) \<Rightarrow> fields' @ map FString xs
      | Some v \<Rightarrow> fields' @ [v])"

fun join :: "string \<Rightarrow> string list \<Rightarrow> string" where
  "join sep [] = []"
| "join sep [x] = x"
| "join sep (x # y # ys) = x @ sep @ join sep (y # ys)"

text \<open>
  \<open>Array.prototype.join\<close> turns each element into a string: a string is itself, an
  array is its elements joined by commas, a built-in function is its source text as
  V8 (the engine of Node.js) prints it, and \<open>Object.prototype\<close> is \<open>[object Object]\<close>.
\<close>

fun field_text :: "field_value \<Rightarrow> string" where
  "field_text (FString s) = s"
| "field_text (FArray xs) = join '','' xs"
| "field_text (FBuiltin n) =
     (if n = ''__proto__'' then ''[object Object]''
      else ''function '' @ (if n = ''constructor'' then ''Object'' else n)
             @ ''() { [native code] }'')"

definition convertProfileFields :: "string list \<Rightarrow> string" where
  "convertProfileFields profileFields' =
     join '','' (map field_text (foldl convert_field [] profileFields'))"

subsection \<open>userProfile\<close>

text \<open>\<open>url.search ? url.search + '&' : ''\<close>\<close>

definition search_and :: "string option \<Rightarrow> string" where
  "search_and s = (case s of None \<Rightarrow> [] | Some t \<Rightarrow> if t \<noteq> [] then t @ ''&'' else [])"

text \<open>The URL object after the \<open>enableProof\<close> block.\<close>

definition url_with_proof :: "'u runtime \<Rightarrow> strategy \<Rightarrow> string \<Rightarrow> 'u url" where
  "url_with_proof rt self accessToken =
     (let url = uri_parse rt (self_profileURL self) in
      if self_enableProof self then
        (let proof = createHmac_sha256_hex rt (self_clientSecret self) accessToken
         in url\<lparr>search := Some (search_and (search url))\<rparr>)
      else url)"

text \<open>The URL object after the \<open>profileFields\<close> block.\<close>

definition url_with_fields :: "strategy \<Rightarrow> 'u url \<Rightarrow> 'u url" where
  "url_with_fields self url =
     (case self_profileFields self of
        None \<Rightarrow> url
      | Some pf \<Rightarrow>
          (let fields' = convertProfileFields pf in
           if fields' \<noteq> [] then
             url\<lparr>search := Some (search_and (search url) @ ''fields='' @ fields')\<rparr>
           else url))"

text \<open>The URL that \<open>userProfile\<close> passes to \<open>_oauth2.get\<close>.\<close>

definition userProfile_url :: "'u runtime \<Rightarrow> strategy \<Rightarrow> string \<Rightarrow> string" where
  "userProfile_url rt self accessToken =
     uri_format rt (url_with_fields self (url_with_proof rt self accessToken))"

datatype js_error =
    APIError zalo_api_error
  | InternalOAuthError string transport_error
  | Error string

text \<open>The one call of \<open>done\<close>: \<open>done(err)\<close> or \<open>done(null, profile)\<close>.\<close>

datatype done_call = Done_error js_error | Done_profile jsval

text \<open>
  The callback given to \<open>_oauth2.get\<close>. \<open>Inl\<close> is an exception that leaves the callback
  uncaught; \<open>Inr\<close> is its call of \<open>done\<close>.
\<close>

definition userProfile_callback ::
    "'u runtime \<Rightarrow> transport_error option \<Rightarrow> string \<Rightarrow> js_exception + done_call" where
  "userProfile_callback rt err body =
     (case err of
        Some e \<Rightarrow>
          (let json =
                 (case data e of
                    None \<Rightarrow> JUndefined
                  | Some d \<Rightarrow>
                      if d \<noteq> [] then
                        (case JSON_parse rt d of None \<Rightarrow> JUndefined | Some j \<Rightarrow> j)
                      else JUndefined)
           in if truthy json \<and> truthy (own_prop json ''error'')
                 \<and> typeof (own_prop json ''error'') = ''object''
              then Inr (Done_error (APIError
                     (ZaloAPIError (own_prop (own_prop json ''error'') ''message'')
                                   (own_prop (own_prop json ''error'') ''code''))))
              else Inr (Done_error (InternalOAuthError ''Failed to fetch user profile'' e)))
      | None \<Rightarrow>
          (case JSON_parse rt body of
             None \<Rightarrow> Inr (Done_error (Error ''Failed to parse user profile''))
           | Some json \<Rightarrow>
               bindE (Profile_parse (JSON_parse rt) json) (\<lambda>profile.
                 let profile = set_prop profile ''provider'' (JStr ''facebook'');
                     profile = set_prop profile ''_raw'' (JStr body);
                     profile = set_prop profile ''_json'' json
                 in Inr (Done_profile profile))))"

definition userProfile :: "'u runtime \<Rightarrow> strategy \<Rightarrow> string \<Rightarrow> js_exception + done_call" where
  "userProfile rt self accessToken =
     (let url = userProfile_url rt self accessToken;
          (err, body) = oauth2_get rt url accessToken
      in userProfile_callback rt err body)"

subsection \<open>parseErrorResponse\<close>

text \<open>
  What \<open>parseErrorResponse\<close> returns: the provider error it builds, or whatever the
  engine's own \<open>parseErrorResponse\<close> returns for the same body and status. The
  \<open>console.log\<close> of the decoded body is not part of the result.
\<close>

datatype error_response =
    Provider_error zalo_api_error
  | Engine_parseErrorResponse string int

definition parseErrorResponse :: "'u runtime \<Rightarrow> string \<Rightarrow> int \<Rightarrow> js_exception + error_response" where
  "parseErrorResponse rt body st =
     (case JSON_parse rt body of
        None \<Rightarrow> Inl SyntaxError
      | Some json \<Rightarrow>
          bindE (get_prop json ''error'') (\<lambda>err.
            if truthy err \<and> typeof err = ''object'' then
              Inr (Provider_error
                     (ZaloAPIError (own_prop err ''message'') (own_prop err ''code'')))
            else Inr (Engine_parseErrorResponse body st)))"

section \<open>Notions of the specification\<close>

text \<open>An attribute of a result object: its value, or \<open>None\<close> when the object has none.\<close>

fun attribute :: "jsval \<Rightarrow> string \<Rightarrow> jsval option" where
  "attribute (JObj fs) k = map_of fs k"
| "attribute v k = None"

text \<open>The names of the attributes of a result object.\<close>

fun attributes :: "jsval \<Rightarrow> string list" where
  "attributes (JObj fs) = map fst fs"
| "attributes v = []"

text \<open>The one-element photo list \<open>[{value: v}]\<close>.\<close>

definition photo_list :: "jsval \<Rightarrow> jsval" where
  "photo_list v = JArr [JObj [(''value'', v)]]"




text \<open>A query parameter is present in a request.\<close>

definition has_param :: "request \<Rightarrow> string \<Rightarrow> bool" where
  "has_param req k = (attribute (query req) k \<noteq> None)"

text \<open>
  A structured error object inside a decoded body: the \<open>error\<close> member of an object,
  when that member is itself an object (for JavaScript an array is one too).
\<close>

fun structured :: "jsval \<Rightarrow> bool" where
  "structured (JObj fs) = True"
| "structured (JArr xs) = True"
| "structured v = False"

definition error_object :: "jsval \<Rightarrow> jsval option" where
  "error_object json =
     (case attribute json ''error'' of
        None \<Rightarrow> None
      | Some e \<Rightarrow> if structured e then Some e else None)"

text \<open>The error body of a transport error, decoded, when it holds a structured error object.\<close>

definition error_body_object :: "'u runtime \<Rightarrow> transport_error \<Rightarrow> jsval option" where
  "error_body_object rt e =
     (case data e of
        None \<Rightarrow> None
      | Some d \<Rightarrow> (case JSON_parse rt d of None \<Rightarrow> None | Some json \<Rightarrow> error_object json))"

text \<open>
  The specification's table from normalized to provider field names; a name outside
  the table stands for itself.
\<close>

definition provider_field :: "string \<Rightarrow> string" where
  "provider_field f =
     (if f = ''id'' then ''id''
      else if f = ''displayName'' then ''name''
      else if f = ''gender'' then ''gender''
      else if f = ''birthday'' then ''birthday''
      else if f = ''photos'' then ''picture''
      else f)"

text \<open>
  The request is a provider error redirect: its query has an \<open>error_code\<close> parameter
  with a truthy value (a non-empty string, say) and either no \<open>error\<close> parameter or
  one with a falsy value (the empty string).
\<close>

definition error_redirect :: "request \<Rightarrow> bool" where
  "error_redirect req =
     (case attribute (query req) ''error_code'' of
        None \<Rightarrow> False
      | Some c \<Rightarrow>
          truthy c \<and>
          (case attribute (query req) ''error'' of None \<Rightarrow> True | Some e \<Rightarrow> \<not> truthy e))"


section \<open>A sample runtime\<close>

text \<open>
  Stand-ins for the library functions, to run the strategy on concrete inputs.
  \<open>sample_JSON_parse\<close> agrees with \<open>JSON.parse\<close> on the four texts of its table, on the
  empty string and on \<open><html>\<close> (both rejected); it is used on no other text.
  \<open>sample_parseInt\<close> agrees with \<open>parseInt(s, 10)\<close> on strings that begin with
  a decimal digit and whose leading digits stay below \<open>2^53\<close>, and on strings that begin
  with a letter. \<open>sample_uri_parse\<close>
  and \<open>sample_uri_format\<close> split and rebuild an absolute URL without fragment at its
  first question mark, as Node's \<open>url.parse\<close> and \<open>url.format\<close> do; \<open>other\<close> is the part
  before the query. The digest stand-in keeps key and message readable.
\<close>

definition sample_JSON_parse :: "string \<Rightarrow> jsval option" where
  \<open>sample_JSON_parse =
     map_of
       [(''null'', JNull),
        (''{"error":{"message":"Invalid token","code":190}}'',
           JObj [(''error'', JObj [(''message'', JStr ''Invalid token''),
                                   (''code'', JNum (Finite 190))])]),
        (''{"id":"42","name":"An"}'',
           JObj [(''id'', JStr ''42''), (''name'', JStr ''An'')]),
        (''{"id":"42","picture":{"data":{"url":"http://p/1.jpg"}}}'',
           JObj [(''id'', JStr ''42''),
                 (''picture'', JObj [(''data'', JObj [(''url'', JStr ''http://p/1.jpg'')])])])]\<close>

definition sample_parseInt :: "jsval \<Rightarrow> nat \<Rightarrow> jsnumber" where
  "sample_parseInt v radix =
     (case v of
        JStr s \<Rightarrow>
          (let ds = takeWhile (\<lambda>c. c \<in> set ''0123456789'') s in
           if ds = [] \<or> radix \<noteq> 10 then NaN
           else Finite (of_nat (foldl (\<lambda>n c. 10 * n + (of_char c - 48)) 0 ds)))
      | _ \<Rightarrow> NaN)"

definition sample_uri_parse :: "string \<Rightarrow> string url" where
  "sample_uri_parse s =
     \<lparr>search = (if CHR ''?'' \<in> set s then Some (dropWhile (\<lambda>c. c \<noteq> CHR ''?'') s) else None),
      other = takeWhile (\<lambda>c. c \<noteq> CHR ''?'') s\<rparr>"

definition sample_uri_format :: "string url \<Rightarrow> string" where
  "sample_uri_format u =
     other u @
       (case search u of
          None \<Rightarrow> []
        | Some t \<Rightarrow> if t = [] then [] else if hd t = CHR ''?'' then t else CHR ''?'' # t)"

definition sample_response :: "transport_error option \<times> string" where
  \<open>sample_response = (None, ''{"id":"42","name":"An"}'')\<close>

definition sample_runtime :: "string runtime" where
  "sample_runtime =
     \<lparr>JSON_parse = sample_JSON_parse,
      parseInt = sample_parseInt,
      uri_parse = sample_uri_parse,
      uri_format = sample_uri_format,
      createHmac_sha256_hex = (\<lambda>k m. ''hmac-sha256('' @ k @ '','' @ m @ '')''),
      oauth2_get = (\<lambda>u t. sample_response)\<rparr>"

definition sample_options :: options where
  "sample_options =
     \<lparr>graphAPIVersion = None, authorizationURL = None, tokenURL = None,
      scopeSeparator = None, profileURL = None, profileFields = None,
      enableProof = False, clientSecret = ''shhh-its-a-secret''\<rparr>"

text \<open>An engine whose GET fails with HTTP status 400 and the error body \<open>d\<close>.\<close>

definition failing_get :: "string \<Rightarrow> string \<Rightarrow> string \<Rightarrow> transport_error option \<times> string" where
  "failing_get d u t = (Some \<lparr>statusCode = Some 400, data = Some d\<rparr>, [])"

section \<open>The profile normalizer: field mapping and photo rule\<close>

lemma typeof_object_truthy: "truthy v \<Longrightarrow> (typeof v = ''object'') = structured v"
  by (cases v) auto

text \<open>
  On a decoded object no property read throws, and \<open>parse\<close> returns the four mapped
  attributes followed, for a truthy \<open>picture\<close>, by \<open>photos\<close>.
\<close>

lemma Profile_parse_object:
  "Profile_parse P (JObj fs) =
     (let picture = own_prop (JObj fs) ''picture'';
          base = [(''id'', own_prop (JObj fs) ''id''),
                  (''displayName'', own_prop (JObj fs) ''name''),
                  (''birthday'', own_prop (JObj fs) ''birthday''),
                  (''gender'', own_prop (JObj fs) ''gender'')]
      in if truthy picture then
           (if structured picture \<and> truthy (own_prop picture ''data'') then
              Inr (JObj (base @
                     [(''photos'', photo_list (own_prop (own_prop picture ''data'') ''url''))]))
            else Inr (JObj (base @ [(''photos'', photo_list picture)])))
         else Inr (JObj base))"
  by (simp add: Profile_parse_def get_prop_def photo_list_def Let_def typeof_object_truthy)

text \<open>
  C9. For every decoded raw profile (a JSON object), \<open>parse\<close> returns a profile whose
  \<open>id\<close> is the input's \<open>id\<close>, whose \<open>displayName\<close> is the input's \<open>name\<close>, whose
  \<open>birthday\<close> is the input's \<open>birthday\<close> and whose \<open>gender\<close> is the input's \<open>gender\<close>
  (\<open>undefined\<close> where the input has none), and the profile has no attribute besides
  these four and \<open>photos\<close>.
\<close>

theorem Profile_parse_maps_fields:
  "\<exists>p. Profile_parse P (JObj fs) = Inr p
      \<and> attribute p ''id'' = Some (own_prop (JObj fs) ''id'')
      \<and> attribute p ''displayName'' = Some (own_prop (JObj fs) ''name'')
      \<and> attribute p ''birthday'' = Some (own_prop (JObj fs) ''birthday'')
      \<and> attribute p ''gender'' = Some (own_prop (JObj fs) ''gender'')
      \<and> set (attributes p) \<subseteq> {''id'', ''displayName'', ''birthday'', ''gender'', ''photos''}"
  by (simp add: Profile_parse_object Let_def)

text \<open>The mapping on the raw profile \<open>{id: "42", name: "An", gender: "male"}\<close>.\<close>

theorem Profile_parse_maps_fields_witness:
  "\<exists>p. Profile_parse sample_JSON_parse
          (JObj [(''id'', JStr ''42''), (''name'', JStr ''An''), (''gender'', JStr ''male'')])
        = Inr p
      \<and> attribute p ''id'' = Some (JStr ''42'')
      \<and> attribute p ''displayName'' = Some (JStr ''An'')
      \<and> attribute p ''birthday'' = Some JUndefined
      \<and> attribute p ''gender'' = Some (JStr ''male'')"
  using Profile_parse_maps_fields
          [of sample_JSON_parse
              "[(''id'', JStr ''42''), (''name'', JStr ''An''), (''gender'', JStr ''male'')]"]
  by auto





section \<open>authenticate: provider error redirects\<close>

lemma own_prop_attribute:
  "own_prop v k = (case attribute v k of None \<Rightarrow> JUndefined | Some x \<Rightarrow> x)"
  by (cases v) simp_all

lemma attribute_truthy: "attribute v k = Some x \<Longrightarrow> truthy v"
  by (cases v) simp_all

text \<open>
  C3, as the code has it. For every request whose query has a truthy \<open>error_code\<close>
  and no truthy \<open>error\<close>, \<open>authenticate\<close> ends in \<open>this.error\<close> with the provider error
  built from \<open>error_message\<close> and \<open>parseInt(error_code, 10)\<close>, and the engine's
  \<open>authenticate\<close> is not called; for every other request it calls the engine's
  \<open>authenticate\<close> with the same request and options.
\<close>

theorem authenticate_error_redirect:
  "authenticate rt req opts =
     (if error_redirect req then
        Strategy_error
          (ZaloAPIError (own_prop (query req) ''error_message'')
             (JNum (parseInt rt (own_prop (query req) ''error_code'') 10)))
      else Engine_authenticate req opts)"
proof (cases "attribute (query req) ''error_code''")
  case None
  then show ?thesis
    by (simp add: authenticate_def error_redirect_def own_prop_attribute)
next
  case (Some c)
  then have "truthy (query req)" by (rule attribute_truthy)
  with Some show ?thesis
    by (simp add: authenticate_def error_redirect_def own_prop_attribute split: option.splits)
qed

text \<open>The redirect \<open>?error_code=190&error_message=Session expired\<close> gives code 190.\<close>

theorem authenticate_error_redirect_witness:
  "authenticate sample_runtime
     \<lparr>query = JObj [(''error_code'', JStr ''190''),
                    (''error_message'', JStr ''Session expired'')]\<rparr> ()
   = Strategy_error \<lparr>name = ''ZaloAPIError'', message = JStr ''Session expired'',
                      code = JNum (Finite 190), status = 500\<rparr>"
  using authenticate_error_redirect [of sample_runtime
      "\<lparr>query = JObj [(''error_code'', JStr ''190''),
                      (''error_message'', JStr ''Session expired'')]\<rparr>" "()"]
  by (simp add: error_redirect_def ZaloAPIError_def sample_runtime_def sample_parseInt_def)

text \<open>
  C3 as stated fails on the redirect \<open>?error_code=\<close>: the query contains an
  \<open>error_code\<close> parameter and no \<open>error\<close> parameter, and \<open>authenticate\<close> hands the
  request to the engine.
\<close>

theorem authenticate_empty_error_code:
  "has_param \<lparr>query = JObj [(''error_code'', JStr '''')]\<rparr> ''error_code''
   \<and> \<not> has_param \<lparr>query = JObj [(''error_code'', JStr '''')]\<rparr> ''error''
   \<and> authenticate sample_runtime \<lparr>query = JObj [(''error_code'', JStr '''')]\<rparr> ()
       = Engine_authenticate \<lparr>query = JObj [(''error_code'', JStr '''')]\<rparr> ()"
  by (simp add: has_param_def authenticate_def)

section \<open>parseErrorResponse\<close>

lemma structured_truthy: "structured v \<Longrightarrow> truthy v \<and> typeof v = ''object''"
  by (cases v) simp_all

text \<open>The test the code makes on \<open>json.error\<close> is the specification's structured error object.\<close>

lemma error_object_test:
  "(truthy (own_prop json ''error'') \<and> typeof (own_prop json ''error'') = ''object'')
     = (error_object json \<noteq> None)"
  by (cases json)
     (auto simp: error_object_def typeof_object_truthy structured_truthy split: option.splits)

lemma error_object_value: "error_object json = Some e \<Longrightarrow> own_prop json ''error'' = e"
  by (cases json) (auto simp: error_object_def split: option.splits if_splits)

lemma error_object_truthy: "error_object json = Some e \<Longrightarrow> truthy json"
  by (cases json) (auto simp: error_object_def)

text \<open>
  C5, as the code has it. For every body that \<open>JSON.parse\<close> does not decode to \<open>null\<close>:
  when \<open>JSON.parse\<close> rejects the body, \<open>parseErrorResponse\<close> throws the SyntaxError and
  the engine's default is not called; when the decoded value contains a structured
  error object, it returns the provider error with that object's \<open>message\<close> and \<open>code\<close>;
  otherwise it returns what the engine's \<open>parseErrorResponse\<close> returns for the same
  body and status.
\<close>

theorem parseErrorResponse_cases:
  assumes "JSON_parse rt body \<noteq> Some JNull" and "JSON_parse rt body \<noteq> Some JUndefined"
  shows "parseErrorResponse rt body st =
     (case JSON_parse rt body of
        None \<Rightarrow> Inl SyntaxError
      | Some json \<Rightarrow>
          (case error_object json of
             Some e \<Rightarrow>
               Inr (Provider_error (ZaloAPIError (own_prop e ''message'') (own_prop e ''code'')))
           | None \<Rightarrow> Inr (Engine_parseErrorResponse body st)))"
proof (cases "JSON_parse rt body")
  case None
  then show ?thesis by (simp add: parseErrorResponse_def)
next
  case (Some json)
  with assms have nn: "json \<noteq> JNull" "json \<noteq> JUndefined" by auto
  show ?thesis
  proof (cases "error_object json")
    case None
    with Some nn show ?thesis
      using error_object_test [of json]
      by (simp add: parseErrorResponse_def get_prop_def)
  next
    case (Some e)
    with \<open>JSON_parse rt body = Some json\<close> nn show ?thesis
      using error_object_test [of json] error_object_value [of json e]
      by (simp add: parseErrorResponse_def get_prop_def)
  qed
qed

text \<open>The body \<open>{"error":{"message":"Invalid token","code":190}}\<close>.\<close>

theorem parseErrorResponse_cases_witness:
  \<open>parseErrorResponse sample_runtime ''{"error":{"message":"Invalid token","code":190}}'' 400
   = Inr (Provider_error \<lparr>name = ''ZaloAPIError'', message = JStr ''Invalid token'',
                           code = JNum (Finite 190), status = 500\<rparr>)\<close>
  using parseErrorResponse_cases
          [of sample_runtime \<open>''{"error":{"message":"Invalid token","code":190}}''\<close> 400]
  by (simp add: sample_runtime_def sample_JSON_parse_def error_object_def ZaloAPIError_def)

text \<open>
  C5 as stated fails on a body that is not JSON, such as an HTML error page: it
  holds no structured error object, and \<open>parseErrorResponse\<close> does not return the
  engine's default result; the SyntaxError of \<open>JSON.parse\<close> leaves the function.
\<close>

theorem parseErrorResponse_not_json:
  "JSON_parse sample_runtime ''<html>'' = None
   \<and> parseErrorResponse sample_runtime ''<html>'' 502 = Inl SyntaxError
   \<and> parseErrorResponse sample_runtime ''<html>'' 502
       \<noteq> Inr (Engine_parseErrorResponse ''<html>'' 502)"
  by (simp add: parseErrorResponse_def sample_runtime_def sample_JSON_parse_def)

section \<open>userProfile: the callback of the HTTP GET\<close>

lemma error_object_json:
  "(truthy json \<and> truthy (own_prop json ''error'')
      \<and> typeof (own_prop json ''error'') = ''object'')
     = (error_object json \<noteq> None)"
  using error_object_test [of json] error_object_truthy [of json] by auto

lemma error_object_undefined: "error_object JUndefined = None"
  by (simp add: error_object_def)

text \<open>
  The error branch of the callback. \<open>JSON.parse\<close> rejects the empty string, so the
  guard \<open>if (err.data)\<close> skips no error body that would have parsed.
\<close>

lemma userProfile_callback_error:
  assumes "JSON_parse rt [] = None"
  shows "userProfile_callback rt (Some e) body =
     Inr (Done_error
       (case error_body_object rt e of
          Some eo \<Rightarrow> APIError (ZaloAPIError (own_prop eo ''message'') (own_prop eo ''code''))
        | None \<Rightarrow> InternalOAuthError ''Failed to fetch user profile'' e))"
proof -
  define json where "json =
     (case data e of
        None \<Rightarrow> JUndefined
      | Some d \<Rightarrow> if d \<noteq> [] then (case JSON_parse rt d of None \<Rightarrow> JUndefined | Some j \<Rightarrow> j)
                  else JUndefined)"
  have eq: "error_body_object rt e = error_object json"
    using assms
    by (auto simp: json_def error_body_object_def error_object_undefined split: option.splits)
  have cb: "userProfile_callback rt (Some e) body =
     (if truthy json \<and> truthy (own_prop json ''error'')
          \<and> typeof (own_prop json ''error'') = ''object''
      then Inr (Done_error (APIError
             (ZaloAPIError (own_prop (own_prop json ''error'') ''message'')
                           (own_prop (own_prop json ''error'') ''code''))))
      else Inr (Done_error (InternalOAuthError ''Failed to fetch user profile'' e)))"
    by (simp add: userProfile_callback_def json_def Let_def)
  show ?thesis
  proof (cases "error_object json")
    case None
    with cb eq show ?thesis using error_object_json [of json] by simp
  next
    case (Some eo)
    with cb eq show ?thesis
      using error_object_json [of json] error_object_value [of json eo] by simp
  qed
qed

text \<open>
  C4. For every transport error \<open>e\<close> that the HTTP GET hands to the callback,
  \<open>userProfile\<close> ends in one call \<open>done(err)\<close>: with the provider error built from
  \<open>message\<close> and \<open>code\<close> of the structured error object when the error body parses as
  JSON and holds one, and otherwise (no error body, an error body that does not
  parse, a decoded body without such an object) with the internal OAuth error that
  wraps \<open>e\<close>. No exception leaves the callback. \<open>JSON.parse\<close> is any function that
  rejects the empty string.
\<close>

theorem userProfile_transport_error:
  assumes "oauth2_get rt (userProfile_url rt self accessToken) accessToken = (Some e, body)"
    and "JSON_parse rt [] = None"
  shows "userProfile rt self accessToken =
     Inr (Done_error
       (case error_body_object rt e of
          Some eo \<Rightarrow> APIError (ZaloAPIError (own_prop eo ''message'') (own_prop eo ''code''))
        | None \<Rightarrow> InternalOAuthError ''Failed to fetch user profile'' e))"
  using assms by (simp add: userProfile_def userProfile_callback_error)

text \<open>
  A GET that fails with the error body \<open>{"error":{"message":"Invalid token","code":190}}\<close>,
  and one that fails with an HTML page.
\<close>

theorem userProfile_transport_error_witness:
  \<open>userProfile
      (sample_runtime
         \<lparr>oauth2_get := failing_get ''{"error":{"message":"Invalid token","code":190}}''\<rparr>)
      (Strategy sample_options) ''token''
    = Inr (Done_error (APIError \<lparr>name = ''ZaloAPIError'', message = JStr ''Invalid token'',
                           code = JNum (Finite 190), status = 500\<rparr>))
   \<and> userProfile (sample_runtime\<lparr>oauth2_get := failing_get ''<html>''\<rparr>)
      (Strategy sample_options) ''token''
    = Inr (Done_error (InternalOAuthError ''Failed to fetch user profile''
         \<lparr>statusCode = Some 400, data = Some ''<html>''\<rparr>))\<close>
  using userProfile_transport_error
          [of \<open>sample_runtime
                 \<lparr>oauth2_get :=
                    failing_get ''{"error":{"message":"Invalid token","code":190}}''\<rparr>\<close>
              "Strategy sample_options" "''token''"
              \<open>\<lparr>statusCode = Some 400,
                 data = Some ''{"error":{"message":"Invalid token","code":190}}''\<rparr>\<close> "[]"]
        userProfile_transport_error
          [of \<open>sample_runtime\<lparr>oauth2_get := failing_get ''<html>''\<rparr>\<close>
              "Strategy sample_options" "''token''"
              \<open>\<lparr>statusCode = Some 400, data = Some ''<html>''\<rparr>\<close> "[]"]
  by (simp add: sample_runtime_def sample_JSON_parse_def failing_get_def error_body_object_def
        error_object_def ZaloAPIError_def)

lemma map_of_put_field:
  "map_of (put_field fs k v) k' = (if k' = k then Some v else map_of fs k')"
  by (induction fs) auto

lemma Profile_parse_is_object:
  assumes "Profile_parse P j = Inr p"
  shows "\<exists>fs. p = JObj fs"
  using assms unfolding Profile_parse_def
  by (cases "(case j of JStr s \<Rightarrow> (case P s of None \<Rightarrow> Inl SyntaxError | Some j \<Rightarrow> Inr j)
              | _ \<Rightarrow> Inr j)")
     (auto simp: get_prop_def Let_def split: if_splits)

lemma userProfile_callback_error_is_error:
  "userProfile_callback rt (Some e) body \<noteq> Inr (Done_profile p)"
  by (simp add: userProfile_callback_def Let_def)

text \<open>
  A profile reaches \<open>done\<close> only on the success path: the body parsed, the normalizer
  returned, and the three attributes were set on its result.
\<close>

lemma userProfile_callback_profile:
  assumes "userProfile_callback rt err body = Inr (Done_profile p)"
  shows "\<exists>json fs. JSON_parse rt body = Some json
           \<and> Profile_parse (JSON_parse rt) json = Inr (JObj fs)
           \<and> p = set_prop (set_prop (set_prop (JObj fs) ''provider'' (JStr ''facebook''))
                              ''_raw'' (JStr body)) ''_json'' json"
proof (cases err)
  case (Some e)
  with assms show ?thesis by (simp add: userProfile_callback_error_is_error)
next
  case None
  show ?thesis
  proof (cases "JSON_parse rt body")
    case None
    with \<open>err = None\<close> assms show ?thesis by (simp add: userProfile_callback_def)
  next
    case (Some json)
    show ?thesis
    proof (cases "Profile_parse (JSON_parse rt) json")
      case (Inl x)
      with Some \<open>err = None\<close> assms show ?thesis by (simp add: userProfile_callback_def)
    next
      case (Inr profile)
      then obtain fs where "profile = JObj fs" using Profile_parse_is_object by blast
      with Inr Some \<open>err = None\<close> assms show ?thesis
        by (simp add: userProfile_callback_def)
    qed
  qed
qed

text \<open>
  C7. Whenever \<open>userProfile\<close> ends in \<open>done(null, profile)\<close>, the profile's \<open>provider\<close>
  is the constant \<open>facebook\<close>, which is not the name of the strategy, \<open>zalo\<close>.
\<close>

theorem userProfile_provider:
  assumes "userProfile rt (Strategy opts) accessToken = Inr (Done_profile p)"
  shows "attribute p ''provider'' = Some (JStr ''facebook'')
       \<and> self_name (Strategy opts) = ''zalo''
       \<and> attribute p ''provider'' \<noteq> Some (JStr (self_name (Strategy opts)))"
proof -
  obtain err body where
    "oauth2_get rt (userProfile_url rt (Strategy opts) accessToken) accessToken = (err, body)"
    by (cases "oauth2_get rt (userProfile_url rt (Strategy opts) accessToken) accessToken")
  with assms have "userProfile_callback rt err body = Inr (Done_profile p)"
    by (simp add: userProfile_def)
  then obtain json fs where
    "p = set_prop (set_prop (set_prop (JObj fs) ''provider'' (JStr ''facebook''))
                        ''_raw'' (JStr body)) ''_json'' json"
    using userProfile_callback_profile by blast
  then have "attribute p ''provider'' = Some (JStr ''facebook'')"
    by (simp add: map_of_put_field)
  moreover have "self_name (Strategy opts) = ''zalo''"
    by (simp add: Strategy_def Let_def)
  ultimately show ?thesis by simp
qed

text \<open>A fetch that answers \<open>{"id":"42","name":"An"}\<close>.\<close>

theorem userProfile_provider_witness:
  \<open>userProfile sample_runtime (Strategy sample_options) ''token'' =
     Inr (Done_profile
       (JObj [(''id'', JStr ''42''), (''displayName'', JStr ''An''), (''birthday'', JUndefined),
            (''gender'', JUndefined), (''provider'', JStr ''facebook''),
            (''_raw'', JStr ''{"id":"42","name":"An"}''),
            (''_json'', JObj [(''id'', JStr ''42''), (''name'', JStr ''An'')])]))
   \<and> attribute
       (JObj [(''id'', JStr ''42''), (''displayName'', JStr ''An''), (''birthday'', JUndefined),
            (''gender'', JUndefined), (''provider'', JStr ''facebook''),
            (''_raw'', JStr ''{"id":"42","name":"An"}''),
            (''_json'', JObj [(''id'', JStr ''42''), (''name'', JStr ''An'')])]) ''provider''
     = Some (JStr ''facebook'')
   \<and> self_name (Strategy sample_options) = ''zalo''\<close>
proof -
  have run: \<open>userProfile sample_runtime (Strategy sample_options) ''token'' =
     Inr (Done_profile
       (JObj [(''id'', JStr ''42''), (''displayName'', JStr ''An''), (''birthday'', JUndefined),
            (''gender'', JUndefined), (''provider'', JStr ''facebook''),
            (''_raw'', JStr ''{"id":"42","name":"An"}''),
            (''_json'', JObj [(''id'', JStr ''42''), (''name'', JStr ''An'')])]))\<close>
    by (simp add: userProfile_def userProfile_callback_def sample_runtime_def sample_response_def
          sample_JSON_parse_def Profile_parse_object)
  from userProfile_provider [OF run] run show ?thesis by simp
qed

text \<open>
  A body that is not JSON, received without a transport error, ends in \<open>done\<close> with
  the generic parse error.
\<close>

lemma userProfile_malformed_body:
  assumes "oauth2_get rt (userProfile_url rt self accessToken) accessToken = (None, body)"
    and "JSON_parse rt body = None"
  shows "userProfile rt self accessToken
           = Inr (Done_error (Error ''Failed to parse user profile''))"
  using assms by (simp add: userProfile_def userProfile_callback_def)

text \<open>
  C8 does not hold of the code. The success path is not total over body strings: on
  the body \<open>null\<close>, which is JSON, \<open>JSON.parse\<close> succeeds, the normalizer reads \<open>json.id\<close>
  of \<open>null\<close> outside the \<open>try\<close> block, and the TypeError leaves the callback uncaught;
  \<open>done\<close> is never called.
\<close>

theorem userProfile_null_body:
  "userProfile (sample_runtime\<lparr>oauth2_get := (\<lambda>u t. (None, ''null''))\<rparr>)
      (Strategy sample_options) ''token'' = Inl TypeError"
  by (simp add: userProfile_def userProfile_callback_def sample_runtime_def
        sample_JSON_parse_def Profile_parse_def get_prop_def)

section \<open>userProfile: the URL of the profile request\<close>

text \<open>
  A field name that \<open>map\<close> does not inherit from \<open>Object.prototype\<close> is translated by
  the specification's table.
\<close>

lemma convert_field_plain:
  assumes "f \<notin> set Object_prototype_names"
  shows "convert_field acc f = acc @ [FString (provider_field f)]"
  using assms
  by (simp add: convert_field_def map_lookup_def field_map_def provider_field_def)

lemma foldl_convert_field:
  assumes "\<forall>f\<in>set pf. f \<notin> set Object_prototype_names"
  shows "foldl convert_field acc pf = acc @ map (\<lambda>f. FString (provider_field f)) pf"
  using assms
proof (induction pf arbitrary: acc)
  case Nil
  then show ?case by simp
next
  case (Cons f pf)
  then show ?case by (simp add: convert_field_plain)
qed

lemma convertProfileFields_plain:
  assumes "\<forall>f\<in>set pf. f \<notin> set Object_prototype_names"
  shows "convertProfileFields pf = join '','' (map provider_field pf)"
  using assms by (simp add: convertProfileFields_def foldl_convert_field comp_def)

text \<open>
  C6, as the code has it. For every configured allow-list none of whose names is a
  property inherited from \<open>Object.prototype\<close> and whose translation is not the empty
  string: \<open>_convertProfileFields\<close> gives the names translated by the table (names
  outside the table unchanged) and joined by commas, and \<open>userProfile\<close> requests the
  URL object left by the \<open>enableProof\<close> block with \<open>fields=\<close> and that string added to
  its search, after an \<open>&\<close> when the search was not empty.
\<close>

theorem userProfile_fields_parameter:
  assumes "self_profileFields self = Some pf"
    and "\<forall>f\<in>set pf. f \<notin> set Object_prototype_names"
    and "join '','' (map provider_field pf) \<noteq> []"
  shows "convertProfileFields pf = join '','' (map provider_field pf)
       \<and> userProfile_url rt self accessToken =
           uri_format rt
             ((url_with_proof rt self accessToken)
                \<lparr>search := Some (search_and (search (url_with_proof rt self accessToken))
                                  @ ''fields='' @ join '','' (map provider_field pf))\<rparr>)"
proof -
  from assms(2) have "convertProfileFields pf = join '','' (map provider_field pf)"
    by (rule convertProfileFields_plain)
  with assms(1,3) show ?thesis
    by (simp add: userProfile_url_def url_with_fields_def)
qed

text \<open>The allow-list \<open>["id", "displayName", "unknownField"]\<close> on the default profile URL.\<close>

theorem userProfile_fields_parameter_witness:
  "convertProfileFields [''id'', ''displayName'', ''unknownField''] = ''id,name,unknownField''
   \<and> userProfile_url sample_runtime
        (Strategy (sample_options
           \<lparr>profileFields := Some [''id'', ''displayName'', ''unknownField'']\<rparr>))
        ''token''
      = ''https://graph.zalo.me/v2.0/me?fields=id,name,unknownField''"
proof -
  let ?pf = "[''id'', ''displayName'', ''unknownField'']"
  let ?self = "Strategy (sample_options\<lparr>profileFields := Some ?pf\<rparr>)"
  have 1: "self_profileFields ?self = Some ?pf"
    by (simp add: Strategy_def Let_def)
  have 2: "\<forall>f\<in>set ?pf. f \<notin> set Object_prototype_names"
    by (simp add: Object_prototype_names_def)
  have j: "join '','' (map provider_field ?pf) = ''id,name,unknownField''"
    by (simp add: provider_field_def)
  then have 3: "join '','' (map provider_field ?pf) \<noteq> []" by simp
  have u: "url_with_proof sample_runtime ?self ''token''
        = \<lparr>search = None, other = ''https://graph.zalo.me/v2.0/me''\<rparr>"
    by (simp add: url_with_proof_def Strategy_def Let_def sample_options_def or_default_def
          sample_runtime_def sample_uri_parse_def)
  from userProfile_fields_parameter [OF 1 2 3, of sample_runtime "''token''"] show ?thesis
    unfolding j u
    by (simp add: search_and_def sample_runtime_def sample_uri_format_def)
qed

text \<open>
  C6 as stated fails on the non-empty allow-list \<open>[""]\<close>: its translation is the empty
  string, and the guard \<open>fields !== ''\<close> keeps \<open>userProfile\<close> from adding a \<open>fields\<close>
  parameter; the default profile URL is requested as it is.
\<close>

theorem userProfile_empty_field_name:
  "['''' :: string] \<noteq> []
   \<and> convertProfileFields [''''] = ''''
   \<and> userProfile_url sample_runtime
        (Strategy (sample_options\<lparr>profileFields := Some ['''']\<rparr>)) ''token''
      = ''https://graph.zalo.me/v2.0/me''"
  by (simp add: userProfile_url_def url_with_fields_def url_with_proof_def Strategy_def Let_def
        sample_options_def or_default_def sample_runtime_def sample_uri_parse_def
        sample_uri_format_def convertProfileFields_def convert_field_def map_lookup_def
        field_map_def Object_prototype_names_def)

text \<open>
  C10. For every strategy whose allow-list is present and translates to the empty
  string, the \<open>profileFields\<close> block leaves the URL object as it found it, and the URL
  requested is the one requested with no allow-list configured.
\<close>

theorem userProfile_empty_fields:
  assumes "self_profileFields self = Some pf" and "convertProfileFields pf = []"
  shows "url_with_fields self u = u
       \<and> userProfile_url rt self accessToken
           = userProfile_url rt (self\<lparr>self_profileFields := None\<rparr>) accessToken"
  using assms
  by (simp add: userProfile_url_def url_with_fields_def url_with_proof_def Let_def)

text \<open>The empty allow-list, against the strategy built without \<open>profileFields\<close>.\<close>

theorem userProfile_empty_fields_witness:
  "userProfile_url sample_runtime
      (Strategy (sample_options\<lparr>profileFields := Some []\<rparr>)) ''token''
     = userProfile_url sample_runtime (Strategy sample_options) ''token''"
proof -
  let ?self = "Strategy (sample_options\<lparr>profileFields := Some []\<rparr>)"
  have 1: "self_profileFields ?self = Some []"
    by (simp add: Strategy_def Let_def)
  have 2: "convertProfileFields [] = []"
    by (simp add: convertProfileFields_def)
  have 3: "userProfile_url sample_runtime (?self\<lparr>self_profileFields := None\<rparr>) ''token''
             = userProfile_url sample_runtime (Strategy sample_options) ''token''"
    by (simp add: userProfile_url_def url_with_fields_def url_with_proof_def Strategy_def
          Let_def sample_options_def)
  have "userProfile_url sample_runtime ?self ''token''
          = userProfile_url sample_runtime (?self\<lparr>self_profileFields := None\<rparr>) ''token''"
    using userProfile_empty_fields
            [OF 1 2, where rt = sample_runtime and accessToken = "''token''"
               and u = "\<lparr>search = None, other = []\<rparr>"]
    by (rule conjunct2)
  then show ?thesis using 3 by (rule trans)
qed

text \<open>
  The digest computed in the \<open>enableProof\<close> block reaches nothing: the requested URL is
  the same for every digest function and every access token.
\<close>

lemma userProfile_url_ignores_proof:
  "userProfile_url (rt\<lparr>createHmac_sha256_hex := h\<rparr>) self t = userProfile_url rt self t'"
  by (simp add: userProfile_url_def url_with_proof_def Let_def)

text \<open>
  C1 does not hold of the code. With \<open>enableProof\<close> set, the client secret
  \<open>shhh-its-a-secret\<close> and the access token \<open>token\<close>, the URL passed to the HTTP GET is
  the bare profile URL: the digest of the token is computed and dropped.
\<close>

theorem userProfile_proof_not_sent:
  "userProfile_url sample_runtime (Strategy (sample_options\<lparr>enableProof := True\<rparr>)) ''token''
     = ''https://graph.zalo.me/v2.0/me''
   \<and> createHmac_sha256_hex sample_runtime
        (self_clientSecret (Strategy (sample_options\<lparr>enableProof := True\<rparr>))) ''token''
     = ''hmac-sha256(shhh-its-a-secret,token)''"
  by (simp add: userProfile_url_def url_with_fields_def url_with_proof_def Strategy_def Let_def
        sample_options_def or_default_def sample_runtime_def sample_uri_parse_def
        sample_uri_format_def search_and_def)

end
